theory Spec2Isabelle
  imports Complex_Main "HOL-Library.Word"
begin

section \<open>cudacpp::Vector4: a shallow embedding of include/cudacpp/Vector4.h\<close>

text \<open>
  The header declares one class template, \<^verbatim>\<open>Vector4<T>\<close>, with four public data
  members \<^verbatim>\<open>x\<close>, \<^verbatim>\<open>y\<close>, \<^verbatim>\<open>z\<close>, \<^verbatim>\<open>w\<close>, four constructors besides the default one,
  three assignment operators, two overloads of \<^verbatim>\<open>operator[]\<close> and \<^verbatim>\<open>toString\<close>.
  The element type \<^verbatim>\<open>T\<close> is the type variable \<open>'a\<close>. A C++ \<^verbatim>\<open>int\<close> and an
  \<^verbatim>\<open>unsigned int\<close> are 32-bit words, read with \<open>sint\<close> and \<open>unat\<close>.
\<close>

subsection \<open>Data model\<close>

text \<open>
  Modelled from the spec: the two- and three-component vectors of
  \<^verbatim>\<open>cudacpp/Vector2.h\<close> and \<^verbatim>\<open>cudacpp/Vector3.h\<close>, headers that Vector4.h includes.
  Vector4.h reads their public members \<^verbatim>\<open>rhs.x\<close>, \<^verbatim>\<open>rhs.y\<close> (and \<^verbatim>\<open>rhs.z\<close>) and
  nothing else of them.
\<close>

record 'a Vector2 =
  x :: 'a
  y :: 'a

record 'a Vector3 =
  x :: 'a
  y :: 'a
  z :: 'a

text \<open>\<^verbatim>\<open>template <typename T> class Vector4 { public: T x; T y; T z; T w; ... }\<close>\<close>

record 'a Vector4 =
  x :: 'a
  y :: 'a
  z :: 'a
  w :: 'a

subsection \<open>Constructors\<close>

text \<open>
  \<^verbatim>\<open>Vector4(const T & tx, const T & ty, const T & tz, const T & tw)
     : x(tx), y(ty), z(ty), w(tw) { }\<close>
  The member initialiser of \<^verbatim>\<open>z\<close> names \<^verbatim>\<open>ty\<close>; the parameter \<^verbatim>\<open>tz\<close> is not used.
\<close>

definition Vector4_ctor :: "'a \<Rightarrow> 'a \<Rightarrow> 'a \<Rightarrow> 'a \<Rightarrow> 'a Vector4" where
  "Vector4_ctor tx ty tz tw = \<lparr>x = tx, y = ty, z = ty, w = tw\<rparr>"

text \<open>\<^verbatim>\<open>Vector4(const Vector2<T> & rhs) : x(rhs.x), y(rhs.y), z(0), w(0) { }\<close>\<close>

definition Vector4_from_Vector2 :: "'a::zero Vector2 \<Rightarrow> 'a Vector4" where
  "Vector4_from_Vector2 rhs = \<lparr>x = Vector2.x rhs, y = Vector2.y rhs, z = 0, w = 0\<rparr>"

text \<open>\<^verbatim>\<open>Vector4(const Vector3<T> & rhs) : x(rhs.x), y(rhs.y), z(rhs.z), w(0) { }\<close>\<close>

definition Vector4_from_Vector3 :: "'a::zero Vector3 \<Rightarrow> 'a Vector4" where
  "Vector4_from_Vector3 rhs =
     \<lparr>x = Vector3.x rhs, y = Vector3.y rhs, z = Vector3.z rhs, w = 0\<rparr>"

text \<open>
  \<^verbatim>\<open>template <typename T2> Vector4(const Vector4<T2> & rhs)
     : x(rhs.x), y(rhs.y), z(rhs.z), w(rhs.w) { }\<close>
  Each member is initialised from a \<^verbatim>\<open>T2\<close> by the implicit conversion of the language
  from \<^verbatim>\<open>T2\<close> to \<^verbatim>\<open>T\<close>, which is the parameter \<open>conv\<close>.
\<close>

definition Vector4_from_Vector4 :: "('b \<Rightarrow> 'a) \<Rightarrow> 'b Vector4 \<Rightarrow> 'a Vector4" where
  "Vector4_from_Vector4 conv rhs =
     \<lparr>x = conv (x rhs), y = conv (y rhs), z = conv (z rhs), w = conv (w rhs)\<rparr>"

subsection \<open>Assignment operators\<close>

text \<open>
  An assignment operator mutates the receiver \<^verbatim>\<open>*this\<close> and returns a reference to an
  object. The objects of type \<^verbatim>\<open>Vector4<T>\<close> live in a store indexed by their
  addresses; an operator takes the store and the address \<open>this\<close> of the receiver, and
  returns the updated store with the address its result refers to.
\<close>

type_synonym ref = nat
type_synonym 'a store = "ref \<Rightarrow> 'a Vector4"

definition set_x :: "'a store \<Rightarrow> ref \<Rightarrow> 'a \<Rightarrow> 'a store" where
  "set_x s this a = s(this := (s this)\<lparr>x := a\<rparr>)"

definition set_y :: "'a store \<Rightarrow> ref \<Rightarrow> 'a \<Rightarrow> 'a store" where
  "set_y s this a = s(this := (s this)\<lparr>y := a\<rparr>)"

definition set_z :: "'a store \<Rightarrow> ref \<Rightarrow> 'a \<Rightarrow> 'a store" where
  "set_z s this a = s(this := (s this)\<lparr>z := a\<rparr>)"

definition set_w :: "'a store \<Rightarrow> ref \<Rightarrow> 'a \<Rightarrow> 'a store" where
  "set_w s this a = s(this := (s this)\<lparr>w := a\<rparr>)"

text \<open>
  \<^verbatim>\<open>Vector4<T> & operator = (const Vector2<T> & rhs)
  { x = rhs.x; y = rhs.y; z = w = static_cast<T>(0); return *this; }\<close>
  The last statement assigns \<^verbatim>\<open>w\<close> first and then gives \<^verbatim>\<open>z\<close> the value of \<^verbatim>\<open>w\<close>.
  A \<^verbatim>\<open>Vector2<T>\<close> is no \<^verbatim>\<open>Vector4<T>\<close> object, so \<open>rhs\<close> is passed as its value.
\<close>

definition assign_Vector2 :: "'a::zero store \<Rightarrow> ref \<Rightarrow> 'a Vector2 \<Rightarrow> 'a store \<times> ref" where
  "assign_Vector2 s this rhs =
     (let s1 = set_x s this (Vector2.x rhs);
          s2 = set_y s1 this (Vector2.y rhs);
          s3 = set_w s2 this 0;
          s4 = set_z s3 this (w (s3 this))
      in (s4, this))"

text \<open>
  \<^verbatim>\<open>Vector4<T> & operator = (const Vector3<T> & rhs)
  { x = rhs.x; y = rhs.y; z = rhs.z; w = static_cast<T>(0); return *this; }\<close>
\<close>

definition assign_Vector3 :: "'a::zero store \<Rightarrow> ref \<Rightarrow> 'a Vector3 \<Rightarrow> 'a store \<times> ref" where
  "assign_Vector3 s this rhs =
     (let s1 = set_x s this (Vector3.x rhs);
          s2 = set_y s1 this (Vector3.y rhs);
          s3 = set_z s2 this (Vector3.z rhs);
          s4 = set_w s3 this 0
      in (s4, this))"

text \<open>
  \<^verbatim>\<open>template <typename T2> Vector4<T> & operator = (const Vector4<T2> & rhs)
  { x = rhs.x; y = rhs.y; z = rhs.z; w = rhs.w; return *this; }\<close>
  With \<^verbatim>\<open>T2\<close> another type than \<^verbatim>\<open>T\<close> the source object is not in the store of the
  \<^verbatim>\<open>Vector4<T>\<close> objects and is passed as its value; \<open>conv\<close> is the implicit conversion
  from \<^verbatim>\<open>T2\<close> to \<^verbatim>\<open>T\<close>.
\<close>

definition assign_Vector4 ::
  "('b \<Rightarrow> 'a) \<Rightarrow> 'a store \<Rightarrow> ref \<Rightarrow> 'b Vector4 \<Rightarrow> 'a store \<times> ref" where
  "assign_Vector4 conv s this rhs =
     (let s1 = set_x s this (conv (x rhs));
          s2 = set_y s1 this (conv (y rhs));
          s3 = set_z s2 this (conv (z rhs));
          s4 = set_w s3 this (conv (w rhs))
      in (s4, this))"

text \<open>
  The same four statements with \<^verbatim>\<open>T2 = T\<close>: \<open>rhs\<close> is a reference into the same store
  and may be the receiver itself, so every member of \<open>rhs\<close> is read from the store as
  the statements before it left it. The copy assignment that the compiler generates for
  \<^verbatim>\<open>Vector4<T>\<close> copies the four members in this order too.
\<close>

definition assign_Vector4_same :: "'a store \<Rightarrow> ref \<Rightarrow> ref \<Rightarrow> 'a store \<times> ref" where
  "assign_Vector4_same s this rhs =
     (let s1 = set_x s this (x (s rhs));
          s2 = set_y s1 this (y (s1 rhs));
          s3 = set_z s2 this (z (s2 rhs));
          s4 = set_w s3 this (w (s3 rhs))
      in (s4, this))"

subsection \<open>Indexed access\<close>

text \<open>
  \<^verbatim>\<open>T & operator [] (const int index) { return *(&x + index); }\<close> and its
  \<^verbatim>\<open>const\<close> overload with the same body. The operator adds \<open>index\<close> to the address of
  \<^verbatim>\<open>x\<close> and returns the cell at that address as a reference, with no test of
  \<open>index\<close>. Addresses are counted in units of \<^verbatim>\<open>sizeof(T)\<close> from the start of the
  object; the four members lie one after the other in the order of their declaration,
  the layout the header relies on. An address that is none of the four members' is
  outside the object: a read or a write through it has no defined result.
\<close>

type_synonym addr = int

definition addr_x :: addr where "addr_x = 0"
definition addr_y :: addr where "addr_y = addr_x + 1"
definition addr_z :: addr where "addr_z = addr_y + 1"
definition addr_w :: addr where "addr_w = addr_z + 1"

definition operator_index :: "32 word \<Rightarrow> addr" where
  "operator_index index = addr_x + sint index"

definition load :: "'a Vector4 \<Rightarrow> addr \<Rightarrow> 'a option" where
  "load v p =
     (if p = addr_x then Some (x v)
      else if p = addr_y then Some (y v)
      else if p = addr_z then Some (z v)
      else if p = addr_w then Some (w v)
      else None)"

definition store :: "'a Vector4 \<Rightarrow> addr \<Rightarrow> 'a \<Rightarrow> 'a Vector4 option" where
  "store v p a =
     (if p = addr_x then Some (v\<lparr>x := a\<rparr>)
      else if p = addr_y then Some (v\<lparr>y := a\<rparr>)
      else if p = addr_z then Some (v\<lparr>z := a\<rparr>)
      else if p = addr_w then Some (v\<lparr>w := a\<rparr>)
      else None)"

text \<open>Reading \<^verbatim>\<open>v[index]\<close>, and the statement \<^verbatim>\<open>v[index] = a\<close>.\<close>

definition index_read :: "'a Vector4 \<Rightarrow> 32 word \<Rightarrow> 'a option" where
  "index_read v index = load v (operator_index index)"

definition index_write :: "'a Vector4 \<Rightarrow> 32 word \<Rightarrow> 'a \<Rightarrow> 'a Vector4 option" where
  "index_write v index a = store v (operator_index index) a"

subsection \<open>Element types and values\<close>

text \<open>
  The instantiations of \<^verbatim>\<open>T\<close> that the header and its specification speak of: the
  arithmetic types of the language, and \<open>T_class\<close> for any other type by its name.
\<close>

datatype ctype =
    T_bool | T_char
  | T_signed_char | T_unsigned_char
  | T_short | T_unsigned_short
  | T_int | T_unsigned_int
  | T_long | T_unsigned_long
  | T_long_long | T_unsigned_long_long
  | T_float | T_double | T_long_double
  | T_class string

text \<open>The signed and the unsigned integer types of the language.\<close>

definition signed_integral :: "ctype \<Rightarrow> bool" where
  "signed_integral t = (t \<in> {T_signed_char, T_short, T_int, T_long, T_long_long})"

definition unsigned_integral :: "ctype \<Rightarrow> bool" where
  "unsigned_integral t =
     (t \<in> {T_unsigned_char, T_unsigned_short, T_unsigned_int, T_unsigned_long,
            T_unsigned_long_long})"

text \<open>
  A finite binary floating-point value is a sign with \<open>significand * 2 ^ exponent\<close>. A
  \<^verbatim>\<open>float\<close> has a significand below \<open>2 ^ 24\<close> and a \<^verbatim>\<open>double\<close> one below
  \<open>2 ^ 53\<close>; infinities and NaNs are left out.
\<close>

record binary_fp =
  negative :: bool
  significand :: nat
  exponent :: int

definition fp_value :: "binary_fp \<Rightarrow> rat" where
  "fp_value f =
     (if negative f then - 1 else 1) * of_nat (significand f) *
     (if 0 \<le> exponent f then 2 ^ nat (exponent f) else 1 / 2 ^ nat (- exponent f))"

datatype float = Float binary_fp
datatype double = Double binary_fp

fun float_value :: "float \<Rightarrow> rat" where
  "float_value (Float f) = fp_value f"

fun double_value :: "double \<Rightarrow> rat" where
  "double_value (Double f) = fp_value f"

fun is_float :: "float \<Rightarrow> bool" where
  "is_float (Float f) = (significand f < 2 ^ 24 \<and> - 149 \<le> exponent f \<and> exponent f \<le> 104)"

fun is_double :: "double \<Rightarrow> bool" where
  "is_double (Double f) = (significand f < 2 ^ 53 \<and> - 1074 \<le> exponent f \<and> exponent f \<le> 971)"

text \<open>
  The implicit conversion from \<^verbatim>\<open>float\<close> to \<^verbatim>\<open>double\<close> is the floating-point promotion
  of the language: the value is unchanged.
\<close>

fun float_to_double :: "float \<Rightarrow> double" where
  "float_to_double (Float f) = Double f"

text \<open>The positive value \<open>m * 2 ^ e\<close>, for writing literals: \<open>pos_fp 3 (- 1)\<close> is 1.5.\<close>

definition pos_fp :: "nat \<Rightarrow> int \<Rightarrow> binary_fp" where
  "pos_fp m e = \<lparr>negative = False, significand = m, exponent = e\<rparr>"

subsection \<open>The C library's sprintf, for the conversions the header uses\<close>

text \<open>
  An argument of a variadic call after the default argument promotions: an \<^verbatim>\<open>int\<close>,
  an \<^verbatim>\<open>unsigned int\<close> or a \<^verbatim>\<open>double\<close> (a \<^verbatim>\<open>float\<close> is promoted to \<^verbatim>\<open>double\<close>).
\<close>

datatype vararg = IntArg "32 word" | UIntArg "32 word" | DoubleArg double

text \<open>
  What the C standard leaves undefined: a conversion that does not fit its argument (or
  one outside \<^verbatim>\<open>%d\<close>, \<^verbatim>\<open>%u\<close>, \<^verbatim>\<open>%f\<close>, \<^verbatim>\<open>%lf\<close>), and a write past the end of the
  destination buffer.
\<close>

datatype failure = BadFormat | BufferOverrun

definition digit_char :: "nat \<Rightarrow> char" where
  "digit_char n = char_of (48 + n)"

fun dec :: "nat \<Rightarrow> string" where
  "dec n = (if n < 10 then [digit_char n] else dec (n div 10) @ [digit_char (n mod 10)])"

declare dec.simps [simp del]

text \<open>\<^verbatim>\<open>%d\<close>: a signed decimal, and \<^verbatim>\<open>%u\<close>: an unsigned decimal.\<close>

definition print_d :: "32 word \<Rightarrow> string" where
  "print_d i = (if sint i < 0 then CHR ''-'' # dec (nat (- sint i)) else dec (nat (sint i)))"

definition print_u :: "32 word \<Rightarrow> string" where
  "print_u u = dec (unat u)"

text \<open>
  \<^verbatim>\<open>%f\<close> (and \<^verbatim>\<open>%lf\<close>, the same conversion): the value rounded to six decimals, to
  the nearest and to even on a tie, as its integer part, a point and six digits.
\<close>

definition micro_units :: "binary_fp \<Rightarrow> nat" where
  "micro_units f =
     (if 0 \<le> exponent f then significand f * 2 ^ nat (exponent f) * 1000000
      else
        let num = significand f * 1000000;
            den = 2 ^ nat (- exponent f);
            q = num div den;
            r = num mod den
        in if den < 2 * r \<or> (2 * r = den \<and> odd q) then q + 1 else q)"

definition pad6 :: "string \<Rightarrow> string" where
  "pad6 s = replicate (6 - length s) (CHR ''0'') @ s"

fun print_f :: "double \<Rightarrow> string" where
  "print_f (Double f) =
     (let u = micro_units f
      in (if negative f then [CHR ''-''] else []) @
         dec (u div 1000000) @ [CHR ''.''] @ pad6 (dec (u mod 1000000)))"

definition emit :: "string \<Rightarrow> failure + string \<Rightarrow> failure + string" where
  "emit s r = (case r of Inl e \<Rightarrow> Inl e | Inr out \<Rightarrow> Inr (s @ out))"

text \<open>The text that \<^verbatim>\<open>sprintf\<close> writes for a format string and its arguments.\<close>

fun format :: "string \<Rightarrow> vararg list \<Rightarrow> failure + string" where
  "format [] args = Inr []"
| "format [c] args = (if c = CHR ''%'' then Inl BadFormat else Inr [c])"
| "format (c # d # fmt) args =
     (if c \<noteq> CHR ''%'' then emit [c] (format (d # fmt) args)
      else if d = CHR ''d'' then
        (case args of
           IntArg i # args' \<Rightarrow> emit (print_d i) (format fmt args')
         | _ \<Rightarrow> Inl BadFormat)
      else if d = CHR ''u'' then
        (case args of
           UIntArg u # args' \<Rightarrow> emit (print_u u) (format fmt args')
         | _ \<Rightarrow> Inl BadFormat)
      else if d = CHR ''f'' then
        (case args of
           DoubleArg g # args' \<Rightarrow> emit (print_f g) (format fmt args')
         | _ \<Rightarrow> Inl BadFormat)
      else if d = CHR ''l'' then
        (case fmt of
           e # fmt' \<Rightarrow>
             if e = CHR ''f'' then
               (case args of
                  DoubleArg g # args' \<Rightarrow> emit (print_f g) (format fmt' args')
                | _ \<Rightarrow> Inl BadFormat)
             else Inl BadFormat
         | [] \<Rightarrow> Inl BadFormat)
      else Inl BadFormat)"

text \<open>
  \<^verbatim>\<open>sprintf(buf, fmt, ...)\<close> into a buffer of \<open>n\<close> bytes: the text and its
  terminating NUL must fit.
\<close>

definition sprintf :: "nat \<Rightarrow> string \<Rightarrow> vararg list \<Rightarrow> failure + string" where
  "sprintf n fmt args =
     (case format fmt args of
        Inl e \<Rightarrow> Inl e
      | Inr out \<Rightarrow> if length out + 1 \<le> n then Inr out else Inl BufferOverrun)"

subsection \<open>Formatting\<close>

text \<open>
  \<^verbatim>\<open>template <typename T> String Vector4<T> ::formatString() const { return "%d";  }
  template <> String Vector4<int>         ::formatString() const { return "%d";  }
  template <> String Vector4<unsigned int>::formatString() const { return "%u";  }
  template <> String Vector4<float>       ::formatString() const { return "%f";  }
  template <> String Vector4<double>      ::formatString() const { return "%lf"; }\<close>
  A specialisation is chosen before the primary template, so the four specialisations
  come first and the primary template is the last equation. \<^verbatim>\<open>cudacpp::String\<close>
  (cudacpp/String.h, a text that is concatenated with \<^verbatim>\<open>+\<close> and read with
  \<^verbatim>\<open>c_str()\<close>) is a \<open>string\<close>.
\<close>

fun formatString :: "ctype \<Rightarrow> string" where
  "formatString T_int = ''%d''"
| "formatString T_unsigned_int = ''%u''"
| "formatString T_float = ''%f''"
| "formatString T_double = ''%lf''"
| "formatString _ = ''%d''"

text \<open>
  \<^verbatim>\<open>String toString() const
  {
    char buf[50];
    String fmt = formatString();
    sprintf(buf, ("Vector4(" + fmt + "," + fmt + "," + fmt + "," + fmt + ")").c_str(), x, y, z, w);
    return String(buf);
  }\<close>
  \<open>t\<close> is the element type \<^verbatim>\<open>T\<close> and \<open>pass\<close> is how a \<^verbatim>\<open>T\<close> reaches the variadic
  call.
\<close>

definition toString :: "ctype \<Rightarrow> ('a \<Rightarrow> vararg) \<Rightarrow> 'a Vector4 \<Rightarrow> failure + string" where
  "toString t pass v =
     (let fmt = formatString t
      in sprintf 50 (''Vector4('' @ fmt @ '','' @ fmt @ '','' @ fmt @ '','' @ fmt @ '')'')
           [pass (x v), pass (y v), pass (z v), pass (w v)])"

text \<open>\<^verbatim>\<open>toString\<close> of the four instantiations that have a format of their own.\<close>

definition toString_int :: "32 word Vector4 \<Rightarrow> failure + string" where
  "toString_int = toString T_int IntArg"

definition toString_unsigned_int :: "32 word Vector4 \<Rightarrow> failure + string" where
  "toString_unsigned_int = toString T_unsigned_int UIntArg"

definition toString_float :: "float Vector4 \<Rightarrow> failure + string" where
  "toString_float = toString T_float (\<lambda>a. DoubleArg (float_to_double a))"

definition toString_double :: "double Vector4 \<Rightarrow> failure + string" where
  "toString_double = toString T_double DoubleArg"

section \<open>Properties\<close>

subsection \<open>Helper facts\<close>

lemma Vector4_ctor_fields:
  "Vector4_ctor tx ty tz tw = \<lparr>x = tx, y = ty, z = ty, w = tw\<rparr>"
  by (simp add: Vector4_ctor_def)

lemma addr_simps:
  "addr_x = 0" "addr_y = 1" "addr_z = 2" "addr_w = 3"
  by (simp_all add: addr_x_def addr_y_def addr_z_def addr_w_def)

lemma operator_index_numerals:
  "operator_index 0 = 0" "operator_index 1 = 1" "operator_index 2 = 2" "operator_index 3 = 3"
  by (simp_all add: operator_index_def addr_x_def)

text \<open>Each assignment operator leaves the store changed at the receiver only.\<close>

lemma assign_Vector2_store:
  "fst (assign_Vector2 s this rhs) = s(this := Vector4_from_Vector2 rhs)"
  by (cases "s this")
    (simp add: assign_Vector2_def set_x_def set_y_def set_z_def set_w_def Let_def
      Vector4_from_Vector2_def)

lemma assign_Vector3_store:
  "fst (assign_Vector3 s this rhs) = s(this := Vector4_from_Vector3 rhs)"
  by (cases "s this")
    (simp add: assign_Vector3_def set_x_def set_y_def set_z_def set_w_def Let_def
      Vector4_from_Vector3_def)

lemma assign_Vector4_store:
  "fst (assign_Vector4 conv s this rhs) = s(this := Vector4_from_Vector4 conv rhs)"
  by (cases "s this")
    (simp add: assign_Vector4_def set_x_def set_y_def set_z_def set_w_def Let_def
      Vector4_from_Vector4_def)

lemma assign_Vector4_same_store:
  "fst (assign_Vector4_same s this rhs) = s(this := s rhs)"
  by (auto simp add: assign_Vector4_same_def set_x_def set_y_def set_z_def set_w_def Let_def
      fun_eq_iff)

lemma assign_returns_this:
  "snd (assign_Vector2 s this r2) = this"
  "snd (assign_Vector3 s this r3) = this"
  "snd (assign_Vector4 conv s this r4) = this"
  "snd (assign_Vector4_same s this rhs) = this"
  by (simp_all add: assign_Vector2_def assign_Vector3_def assign_Vector4_def
      assign_Vector4_same_def Let_def)

text \<open>Evaluating the decimal conversions on numerals.\<close>

lemma digit_char_simps:
  "digit_char 0 = CHR ''0''" "digit_char 1 = CHR ''1''" "digit_char 2 = CHR ''2''"
  "digit_char 3 = CHR ''3''" "digit_char 4 = CHR ''4''" "digit_char 5 = CHR ''5''"
  "digit_char 6 = CHR ''6''" "digit_char 7 = CHR ''7''" "digit_char 8 = CHR ''8''"
  "digit_char 9 = CHR ''9''" "digit_char (Suc 0) = CHR ''1''"
  by (code_simp)+

lemma dec_digit: "n < 10 \<Longrightarrow> dec n = [digit_char n]"
  by (simp add: dec.simps)

lemma dec_more: "10 \<le> n \<Longrightarrow> dec n = dec (n div 10) @ [digit_char (n mod 10)]"
  by (subst dec.simps) simp

lemma replicate_small:
  "replicate 1 c = [c]" "replicate 2 c = [c, c]" "replicate 3 c = [c, c, c]"
  "replicate 4 c = [c, c, c, c]" "replicate 5 c = [c, c, c, c, c]"
  by (simp_all add: eval_nat_numeral)

lemmas toString_eval =
  toString_int_def toString_unsigned_int_def toString_float_def toString_double_def
  toString_def sprintf_def emit_def print_d_def print_u_def micro_units_def pad6_def
  pos_fp_def dec_digit dec_more digit_char_simps replicate_small Let_def

text \<open>Every \<^verbatim>\<open>float\<close> is a \<^verbatim>\<open>double\<close>, so the promotion stays within the type.\<close>

lemma float_to_double_representable: "is_float f \<Longrightarrow> is_double (float_to_double f)"
  by (cases f) auto

lemma float_to_double_value: "double_value (float_to_double f) = float_value f"
  by (cases f) simp

lemma pos_fp_sel:
  "negative (pos_fp m e) = False" "significand (pos_fp m e) = m" "exponent (pos_fp m e) = e"
  by (simp_all add: pos_fp_def)

lemma half_values:
  "fp_value (pos_fp 3 (- 1)) = 3 / 2" "fp_value (pos_fp 5 (- 1)) = 5 / 2"
  "fp_value (pos_fp 7 (- 1)) = 7 / 2" "fp_value (pos_fp 9 (- 1)) = 9 / 2"
  by (simp_all add: fp_value_def pos_fp_def)

subsection \<open>The four-argument constructor\<close>

text \<open>
  C1. The specification has \<^verbatim>\<open>Vector4<T>(a,b,c,d)\<close> store its four arguments in
  \<^verbatim>\<open>x\<close>, \<^verbatim>\<open>y\<close>, \<^verbatim>\<open>z\<close>, \<^verbatim>\<open>w\<close> in this order, and the header's own comment has
  \<^verbatim>\<open>tz\<close> assigned to \<^verbatim>\<open>this->z\<close>. The constructor initialises \<^verbatim>\<open>z\<close> with \<^verbatim>\<open>ty\<close>:
  \<^verbatim>\<open>Vector4<int>(1,2,3,4)\<close> holds \<open>(1,2,2,4)\<close>, and its third member is not the third
  argument.
\<close>

theorem Vector4_ctor_third_is_second:
  "Vector4_ctor (1 :: 32 word) 2 3 4 = \<lparr>x = 1, y = 2, z = 2, w = 4\<rparr> \<and>
   z (Vector4_ctor (1 :: 32 word) 2 3 4) \<noteq> 3"
  by (simp add: Vector4_ctor_fields)

subsection \<open>toString\<close>

text \<open>
  C2. The specification has \<^verbatim>\<open>toString()\<close> of a \<^verbatim>\<open>Vector4<int>\<close> constructed from
  \<open>1, 2, 3, 4\<close> give \<^verbatim>\<open>Vector4(1,2,3,4)\<close>. The code gives \<^verbatim>\<open>Vector4(1,2,2,4)\<close>: the
  constructor has lost the third argument (C1). \<^verbatim>\<open>toString\<close> itself renders a vector
  that holds \<open>(1,2,3,4)\<close> as the specification says.
\<close>

theorem toString_of_ctor_1234:
  "toString_int (Vector4_ctor 1 2 3 4) = Inr ''Vector4(1,2,2,4)'' \<and>
   toString_int \<lparr>x = 1, y = 2, z = 3, w = 4\<rparr> = Inr ''Vector4(1,2,3,4)''"
  by (simp add: toString_eval Vector4_ctor_fields)

text \<open>
  C3. The specification has the 50 bytes of \<^verbatim>\<open>buf\<close> hold the text of every vector of a
  builtin numeric type. A \<^verbatim>\<open>Vector4<int>\<close> whose four members are \<open>-2147483648\<close>
  renders as 56 characters, 57 bytes with the terminating NUL: \<^verbatim>\<open>sprintf\<close> writes past
  the end of \<^verbatim>\<open>buf\<close>. Four members of ten digits each (\<open>1000000000\<close>) overrun it too.
\<close>

theorem toString_int_min_overruns:
  "toString_int
     \<lparr>x = - 2147483648, y = - 2147483648, z = - 2147483648, w = - 2147483648\<rparr> =
     Inl BufferOverrun \<and>
   format ''Vector4(%d,%d,%d,%d)''
     [IntArg (- 2147483648), IntArg (- 2147483648), IntArg (- 2147483648),
      IntArg (- 2147483648)] =
     Inr ''Vector4(-2147483648,-2147483648,-2147483648,-2147483648)'' \<and>
   length ''Vector4(-2147483648,-2147483648,-2147483648,-2147483648)'' + 1 = 57 \<and>
   toString_int \<lparr>x = 1000000000, y = 1000000000, z = 1000000000, w = 1000000000\<rparr> =
     Inl BufferOverrun"
  by (simp add: toString_eval)

text \<open>
  C8 as the specification states it has every unsigned integral element type rendered
  as an unsigned decimal. Only \<^verbatim>\<open>unsigned int\<close> has the specialisation \<^verbatim>\<open>"%u"\<close>;
  \<^verbatim>\<open>unsigned long\<close> is an unsigned integral type and gets the primary template's
  \<^verbatim>\<open>"%d"\<close>.
\<close>

theorem formatString_unsigned_long_is_signed:
  "unsigned_integral T_unsigned_long \<and>
   formatString T_unsigned_long = ''%d'' \<and>
   formatString T_unsigned_long \<noteq> ''%u''"
  by (simp add: unsigned_integral_def)

text \<open>
  C8, amended. The format is chosen by the element type alone: \<^verbatim>\<open>"%u"\<close> for
  \<^verbatim>\<open>unsigned int\<close>, \<^verbatim>\<open>"%f"\<close> for \<^verbatim>\<open>float\<close>, \<^verbatim>\<open>"%lf"\<close> for \<^verbatim>\<open>double\<close>, and the signed
  decimal \<^verbatim>\<open>"%d"\<close> for \<^verbatim>\<open>int\<close> and for every other type, the other signed and
  unsigned integral types included. So a \<^verbatim>\<open>Vector4<int>\<close> renders as signed decimals, a
  \<^verbatim>\<open>Vector4<unsigned int>\<close> as unsigned decimals, and a \<^verbatim>\<open>Vector4<float>\<close> or
  \<^verbatim>\<open>Vector4<double>\<close> as decimals with a point and six digits after it: a
  \<^verbatim>\<open>Vector4<float>\<close> that holds \<open>(1,2,3,4)\<close> is \<^verbatim>\<open>Vector4(1.000000,2.000000,3.000000,4.000000)\<close>.
\<close>

theorem formatString_by_type:
  "formatString t =
     (if t = T_unsigned_int then ''%u''
      else if t = T_float then ''%f''
      else if t = T_double then ''%lf''
      else ''%d'') \<and>
   toString_int \<lparr>x = - 1, y = 0, z = 7, w = 2147483647\<rparr> =
     Inr ''Vector4(-1,0,7,2147483647)'' \<and>
   toString_unsigned_int \<lparr>x = 4294967295, y = 0, z = 7, w = 2147483647\<rparr> =
     Inr ''Vector4(4294967295,0,7,2147483647)'' \<and>
   toString_float
     \<lparr>x = Float (pos_fp 1 0), y = Float (pos_fp 2 0), z = Float (pos_fp 3 0),
      w = Float (pos_fp 4 0)\<rparr> =
     Inr ''Vector4(1.000000,2.000000,3.000000,4.000000)'' \<and>
   toString_double
     \<lparr>x = Double (pos_fp 3 (- 1)), y = Double (pos_fp 1 (- 3)), z = Double (pos_fp 3 (- 21)),
      w = Double (pos_fp 4 0)\<rparr> =
     Inr ''Vector4(1.500000,0.125000,0.000001,4.000000)''"
proof -
  have "formatString t =
     (if t = T_unsigned_int then ''%u''
      else if t = T_float then ''%f''
      else if t = T_double then ''%lf''
      else ''%d'')"
    by (cases t) simp_all
  moreover have "toString_int \<lparr>x = - 1, y = 0, z = 7, w = 2147483647\<rparr> =
     Inr ''Vector4(-1,0,7,2147483647)''"
    by (simp add: toString_eval)
  moreover have "toString_unsigned_int \<lparr>x = 4294967295, y = 0, z = 7, w = 2147483647\<rparr> =
     Inr ''Vector4(4294967295,0,7,2147483647)''"
    by (simp add: toString_eval)
  moreover have "toString_float
     \<lparr>x = Float (pos_fp 1 0), y = Float (pos_fp 2 0), z = Float (pos_fp 3 0),
      w = Float (pos_fp 4 0)\<rparr> =
     Inr ''Vector4(1.000000,2.000000,3.000000,4.000000)''"
    by (simp add: toString_eval)
  moreover have "toString_double
     \<lparr>x = Double (pos_fp 3 (- 1)), y = Double (pos_fp 1 (- 3)), z = Double (pos_fp 3 (- 21)),
      w = Double (pos_fp 4 0)\<rparr> =
     Inr ''Vector4(1.500000,0.125000,0.000001,4.000000)''"
    by (simp add: toString_eval)
  ultimately show ?thesis by blast
qed

subsection \<open>Indexed access\<close>

text \<open>
  C4. For each index \<open>0, 1, 2, 3\<close> the read \<^verbatim>\<open>v[i]\<close> is the member \<^verbatim>\<open>x\<close>, \<^verbatim>\<open>y\<close>,
  \<^verbatim>\<open>z\<close>, \<^verbatim>\<open>w\<close> in this order; after \<^verbatim>\<open>v[i] = a\<close> the member of that index reads
  \<open>a\<close>; and a write to a member is read back through its index. Index and member name
  reach the same cell.
\<close>

theorem index_is_member:
  "index_read v 0 = Some (x v) \<and> index_read v 1 = Some (y v) \<and>
   index_read v 2 = Some (z v) \<and> index_read v 3 = Some (w v) \<and>
   map_option x (index_write v 0 a) = Some a \<and>
   map_option y (index_write v 1 a) = Some a \<and>
   map_option z (index_write v 2 a) = Some a \<and>
   map_option w (index_write v 3 a) = Some a \<and>
   index_read (v\<lparr>x := a\<rparr>) 0 = Some a \<and>
   index_read (v\<lparr>y := a\<rparr>) 1 = Some a \<and>
   index_read (v\<lparr>z := a\<rparr>) 2 = Some a \<and>
   index_read (v\<lparr>w := a\<rparr>) 3 = Some a"
  by (simp add: index_read_def index_write_def load_def store_def operator_index_numerals
      addr_simps)

text \<open>
  C9. \<^verbatim>\<open>operator[]\<close> tests nothing: for every \<open>index\<close> it forms the address of \<^verbatim>\<open>x\<close>
  plus \<open>index\<close>. That address is a member's, and the read or the write through it
  defined, exactly when \<open>index\<close> is 0, 1, 2 or 3; any other index, negative ones
  included, yields no member of the vector.
\<close>

theorem index_defined_iff_in_range:
  "operator_index i = addr_x + sint i \<and>
   (operator_index i \<in> {addr_x, addr_y, addr_z, addr_w}) = (0 \<le> sint i \<and> sint i \<le> 3) \<and>
   (index_read v i = None) = (sint i < 0 \<or> 3 < sint i) \<and>
   (index_write v i a = None) = (sint i < 0 \<or> 3 < sint i)"
  by (auto simp add: index_read_def index_write_def load_def store_def operator_index_def
      addr_simps)

text \<open>
  C10. A write through \<^verbatim>\<open>v[i]\<close>, \<open>i\<close> one of \<open>0, 1, 2, 3\<close>, changes the member of
  index \<open>i\<close> and leaves the other three members as they were.
\<close>

theorem index_write_frame:
  "index_write v 0 a = Some \<lparr>x = a, y = y v, z = z v, w = w v\<rparr> \<and>
   index_write v 1 a = Some \<lparr>x = x v, y = a, z = z v, w = w v\<rparr> \<and>
   index_write v 2 a = Some \<lparr>x = x v, y = y v, z = a, w = w v\<rparr> \<and>
   index_write v 3 a = Some \<lparr>x = x v, y = y v, z = z v, w = a\<rparr>"
  by (simp add: index_write_def store_def operator_index_numerals addr_simps)

subsection \<open>Conversions\<close>

text \<open>
  C5. Constructed from a \<^verbatim>\<open>Vector2<T>\<close> \<open>(p,q)\<close> a vector is \<open>(p,q,0,0)\<close>, and from a
  \<^verbatim>\<open>Vector3<T>\<close> \<open>(p,q,r)\<close> it is \<open>(p,q,r,0)\<close>; assigning either to a vector, whatever it
  held, leaves it with the same four members.
\<close>

theorem widen_zero_fills:
  "Vector4_from_Vector2 \<lparr>Vector2.x = p, Vector2.y = q\<rparr> = \<lparr>x = p, y = q, z = 0, w = 0\<rparr> \<and>
   Vector4_from_Vector3 \<lparr>Vector3.x = p, Vector3.y = q, Vector3.z = r\<rparr> =
     \<lparr>x = p, y = q, z = r, w = 0\<rparr> \<and>
   fst (assign_Vector2 s this \<lparr>Vector2.x = p, Vector2.y = q\<rparr>) this =
     \<lparr>x = p, y = q, z = 0, w = 0\<rparr> \<and>
   fst (assign_Vector3 s this \<lparr>Vector3.x = p, Vector3.y = q, Vector3.z = r\<rparr>) this =
     \<lparr>x = p, y = q, z = r, w = 0\<rparr>"
  by (simp add: assign_Vector2_store assign_Vector3_store Vector4_from_Vector2_def
      Vector4_from_Vector3_def)

text \<open>
  C6. Construction and assignment from a \<^verbatim>\<open>Vector4<T2>\<close> convert member by member.
  From a \<^verbatim>\<open>Vector4<float>\<close> that holds \<open>(1.5, 2.5, 3.5, 4.5)\<close> they give a
  \<^verbatim>\<open>Vector4<double>\<close> whose members are doubles of the values
  \<open>3/2, 5/2, 7/2, 9/2\<close>, the values of the source, and the promotion changes the
  value of no \<^verbatim>\<open>float\<close>. From a \<^verbatim>\<open>Vector4<int>\<close> to a \<^verbatim>\<open>Vector4<int>\<close>, where
  the conversion is the identity, they give the same vector.
\<close>

theorem convert_memberwise:
  "Vector4_from_Vector4 conv rhs =
     \<lparr>x = conv (x rhs), y = conv (y rhs), z = conv (z rhs), w = conv (w rhs)\<rparr> \<and>
   fst (assign_Vector4 conv s this rhs) this =
     \<lparr>x = conv (x rhs), y = conv (y rhs), z = conv (z rhs), w = conv (w rhs)\<rparr> \<and>
   (let src = \<lparr>x = Float (pos_fp 3 (- 1)), y = Float (pos_fp 5 (- 1)),
                z = Float (pos_fp 7 (- 1)), w = Float (pos_fp 9 (- 1))\<rparr>;
        d = Vector4_from_Vector4 float_to_double src
    in float_value (x src) = 3 / 2 \<and> float_value (y src) = 5 / 2 \<and>
       float_value (z src) = 7 / 2 \<and> float_value (w src) = 9 / 2 \<and>
       double_value (x d) = 3 / 2 \<and> double_value (y d) = 5 / 2 \<and>
       double_value (z d) = 7 / 2 \<and> double_value (w d) = 9 / 2 \<and>
       is_double (x d) \<and> is_double (y d) \<and> is_double (z d) \<and> is_double (w d) \<and>
       fst (assign_Vector4 float_to_double u this src) this = d) \<and>
   double_value (float_to_double f) = float_value f \<and>
   Vector4_from_Vector4 (\<lambda>i :: 32 word. i) v = v \<and>
   fst (assign_Vector4 (\<lambda>i :: 32 word. i) t this v) this = v"
  by (simp add: assign_Vector4_store Vector4_from_Vector4_def float_to_double_value
      half_values pos_fp_sel Let_def)

subsection \<open>Chained assignment\<close>

text \<open>
  C7. Each assignment operator returns the address of its receiver. So in
  \<^verbatim>\<open>c = (b = a)\<close> the outer assignment reads \<open>b\<close> as the inner one left it, and both
  \<open>b\<close> and \<open>c\<close> end as \<open>a\<close>: as the vector \<open>a\<close> itself when \<open>a\<close> is a
  \<^verbatim>\<open>Vector4<T>\<close> (which may be \<open>b\<close> or \<open>c\<close>), as \<open>a\<close> converted when it is a
  \<^verbatim>\<open>Vector4<T2>\<close>, and as \<open>a\<close> filled with zeros when it is a \<^verbatim>\<open>Vector2<T>\<close> or a
  \<^verbatim>\<open>Vector3<T>\<close>.
\<close>

theorem chained_assignment:
  "snd (assign_Vector2 s b a2) = b \<and> snd (assign_Vector3 s b a3) = b \<and>
   snd (assign_Vector4 conv s b a4) = b \<and> snd (assign_Vector4_same s b a) = b \<and>
   (let (s1, r) = assign_Vector4_same s b a; (s2, r') = assign_Vector4_same s1 c r
    in r' = c \<and> s2 b = s a \<and> s2 c = s a) \<and>
   (let (s1, r) = assign_Vector4 conv s b a4; (s2, r') = assign_Vector4_same s1 c r
    in r' = c \<and> s2 b = Vector4_from_Vector4 conv a4 \<and> s2 c = Vector4_from_Vector4 conv a4) \<and>
   (let (s1, r) = assign_Vector2 s b a2; (s2, r') = assign_Vector4_same s1 c r
    in r' = c \<and> s2 b = Vector4_from_Vector2 a2 \<and> s2 c = Vector4_from_Vector2 a2) \<and>
   (let (s1, r) = assign_Vector3 s b a3; (s2, r') = assign_Vector4_same s1 c r
    in r' = c \<and> s2 b = Vector4_from_Vector3 a3 \<and> s2 c = Vector4_from_Vector3 a3)"
  by (simp add: split_beta Let_def assign_returns_this assign_Vector4_same_store
      assign_Vector4_store assign_Vector2_store assign_Vector3_store)

end
